theory Spec2Isabelle
  imports Main "HOL-Library.Word"
begin

section \<open>Media ingestion of the source and target components\<close>

text \<open>
  A shallow embedding of \<^verbatim>\<open>facefusion/uis/components/source.py\<close> (the batch flow) and
  \<^verbatim>\<open>facefusion/uis/components/target.py\<close> (the single-reference flow).

  Modelling decisions.
  \<^item> Python strings are \<open>string\<close>; a \<open>char\<close> is a code point below 256, so the model covers
    Latin-1 text.
  \<^item> \<^verbatim>\<open>os.path\<close> is \<^verbatim>\<open>posixpath\<close>: the separator is \<open>/\<close> and there is no alternative
    separator.
  \<^item> The file system is a store of regular files keyed by canonical path. A path name reaches
    the store through \<^verbatim>\<open>os.path.realpath\<close>, which the environment supplies and which
    does not change while one call runs. Directories, permissions and a full disk are not
    modelled.
  \<^item> The network is a function from a URL to the outcome of \<^verbatim>\<open>requests.get\<close>; a body is a
    finite list of bytes.
  \<^item> An exception is a value \<open>Inl e\<close>; the state left behind by an aborted call is not kept.
  \<^item> A generator is the list of the values it yields when it is drained to the end.
\<close>

subsection \<open>Strings\<close>

type_synonym path = string
type_synonym byte = "8 word"

text \<open>\<^verbatim>\<open>str.startswith\<close> and \<^verbatim>\<open>str.endswith\<close>.\<close>

definition startswith :: "string \<Rightarrow> string \<Rightarrow> bool" where
  "startswith s pre = (take (length pre) s = pre)"

definition endswith :: "string \<Rightarrow> string \<Rightarrow> bool" where
  "endswith s suf = (length suf \<le> length s \<and> drop (length s - length suf) s = suf)"

text \<open>
  \<^verbatim>\<open>str.lower\<close> on code points below 256: the letters \<open>A\<close> .. \<open>Z\<close> and the letters
  \<open>0xC0\<close> .. \<open>0xDE\<close> other than the multiplication sign \<open>0xD7\<close> move up by \<open>0x20\<close>; every
  other character stays.
\<close>

definition upper_letters :: "char list" where
  "upper_letters =
     ''ABCDEFGHIJKLMNOPQRSTUVWXYZ'' @
     [CHR 0xC0, CHR 0xC1, CHR 0xC2, CHR 0xC3, CHR 0xC4, CHR 0xC5, CHR 0xC6, CHR 0xC7,
      CHR 0xC8, CHR 0xC9, CHR 0xCA, CHR 0xCB, CHR 0xCC, CHR 0xCD, CHR 0xCE, CHR 0xCF,
      CHR 0xD0, CHR 0xD1, CHR 0xD2, CHR 0xD3, CHR 0xD4, CHR 0xD5, CHR 0xD6,
      CHR 0xD8, CHR 0xD9, CHR 0xDA, CHR 0xDB, CHR 0xDC, CHR 0xDD, CHR 0xDE]"

definition lower_letters :: "char list" where
  "lower_letters =
     ''abcdefghijklmnopqrstuvwxyz'' @
     [CHR 0xE0, CHR 0xE1, CHR 0xE2, CHR 0xE3, CHR 0xE4, CHR 0xE5, CHR 0xE6, CHR 0xE7,
      CHR 0xE8, CHR 0xE9, CHR 0xEA, CHR 0xEB, CHR 0xEC, CHR 0xED, CHR 0xEE, CHR 0xEF,
      CHR 0xF0, CHR 0xF1, CHR 0xF2, CHR 0xF3, CHR 0xF4, CHR 0xF5, CHR 0xF6,
      CHR 0xF8, CHR 0xF9, CHR 0xFA, CHR 0xFB, CHR 0xFC, CHR 0xFD, CHR 0xFE]"

definition lower_char :: "char \<Rightarrow> char" where
  "lower_char c =
     (case map_of (zip upper_letters lower_letters) c of
        None \<Rightarrow> c
      | Some d \<Rightarrow> d)"

definition lower :: "string \<Rightarrow> string" where
  "lower s = map lower_char s"

text \<open>
  \<^verbatim>\<open>str.strip()\<close>: the code points below 256 for which \<^verbatim>\<open>str.isspace\<close> holds are tab,
  line feed, vertical tab, form feed, carriage return, the four separators \<open>0x1C\<close> ..
  \<open>0x1F\<close>, the space, the next-line control \<open>0x85\<close> and the no-break space \<open>0xA0\<close>.
\<close>

definition is_space :: "char \<Rightarrow> bool" where
  "is_space c =
     (c \<in> set [CHR 0x09, CHR 0x0A, CHR 0x0B, CHR 0x0C, CHR 0x0D,
                CHR 0x1C, CHR 0x1D, CHR 0x1E, CHR 0x1F, CHR '' '', CHR 0x85, CHR 0xA0])"

definition strip :: "string \<Rightarrow> string" where
  "strip s = rev (dropWhile is_space (rev (dropWhile is_space s)))"

text \<open>\<^verbatim>\<open>str.split(",")\<close>: the empty string splits into one empty field.\<close>

fun split_on :: "char \<Rightarrow> string \<Rightarrow> string list" where
  "split_on c [] = [[]]"
| "split_on c (x # xs) =
     (if x = c then [] # split_on c xs
      else (case split_on c xs of
              [] \<Rightarrow> [[x]]
            | w # ws \<Rightarrow> (x # w) # ws))"

text \<open>\<^verbatim>\<open>str.rfind\<close> of a single character: the highest index, or \<open>-1\<close>.\<close>

fun rfind_from :: "char \<Rightarrow> string \<Rightarrow> int \<Rightarrow> int \<Rightarrow> int" where
  "rfind_from c [] i found = found"
| "rfind_from c (x # xs) i found = rfind_from c xs (i + 1) (if x = c then i else found)"

definition rfind :: "string \<Rightarrow> char \<Rightarrow> int" where
  "rfind s c = rfind_from c s 0 (-1)"

subsection \<open>\<^verbatim>\<open>os.path\<close>\<close>

text \<open>
  \<^verbatim>\<open>posixpath.splitext\<close> is \<^verbatim>\<open>genericpath._splitext(p, '/', None, '.')\<close>:
  \<^verbatim>\<open>
    sepIndex = p.rfind(sep)
    dotIndex = p.rfind(extsep)
    if dotIndex > sepIndex:
        filenameIndex = sepIndex + 1
        while filenameIndex < dotIndex:
            if p[filenameIndex:filenameIndex+1] != extsep:
                return p[:dotIndex], p[dotIndex:]
            filenameIndex += 1
    return p, p[:0]
  \<close>
\<close>

function splitext_loop :: "string \<Rightarrow> nat \<Rightarrow> nat \<Rightarrow> string \<times> string" where
  "splitext_loop p dotIndex filenameIndex =
     (if filenameIndex < dotIndex then
        (if take 1 (drop filenameIndex p) \<noteq> ''.'' then (take dotIndex p, drop dotIndex p)
         else splitext_loop p dotIndex (filenameIndex + 1))
      else (p, []))"
  by pat_completeness auto
termination
  by (relation "measure (\<lambda>(p, dotIndex, filenameIndex). dotIndex - filenameIndex)") auto

declare splitext_loop.simps [simp del]

definition splitext :: "string \<Rightarrow> string \<times> string" where
  "splitext p =
     (let sepIndex = rfind p CHR ''/'';
          dotIndex = rfind p CHR ''.''
      in if dotIndex > sepIndex then splitext_loop p (nat dotIndex) (nat (sepIndex + 1))
         else (p, []))"

text \<open>\<^verbatim>\<open>posixpath.basename\<close>: \<^verbatim>\<open>p[p.rfind('/') + 1:]\<close>.\<close>

definition basename :: "path \<Rightarrow> string" where
  "basename p = drop (nat (rfind p CHR ''/'' + 1)) p"

text \<open>\<^verbatim>\<open>posixpath.join\<close> of two components.\<close>

definition join :: "path \<Rightarrow> string \<Rightarrow> path" where
  "join a b =
     (if startswith b ''/'' then b
      else if a = [] \<or> endswith a ''/'' then a @ b
      else a @ ''/'' @ b)"

subsection \<open>The world outside the two modules\<close>

datatype error =
    ConnectionError
  | HTTPError nat
  | ValueError
  | SameFileError
  | FileExistsError

text \<open>
  The \<^verbatim>\<open>Content-Length\<close> header as the code reads it,
  \<^verbatim>\<open>int(total_size) if total_size else 0\<close>: the header is absent or empty
  (\<open>NoLength\<close>), \<^verbatim>\<open>int\<close> accepts it (\<open>Length n\<close>), or \<^verbatim>\<open>int\<close> raises
  (\<open>BadLength\<close>).
\<close>

datatype content_length = NoLength | Length int | BadLength

record response =
  status_code :: nat
  content_length_header :: content_length
  body :: "byte list"

datatype http_result = NetworkFailure | Response response

text \<open>An uploaded file of the UI framework: the code reads only its \<^verbatim>\<open>name\<close>.\<close>

record ui_file =
  name :: string

text \<open>
  What the modules read from their environment. The functions of \<^verbatim>\<open>facefusion.filesystem\<close>
  are not part of the two modules and are taken as parameters. So are the rank by which a
  Python set of the given distinct strings enumerates its elements (it depends on their
  hashes), the \<open>n\<close>-th candidate stem (prefix and random part) that \<^verbatim>\<open>tempfile\<close> draws, and
  the number \<^verbatim>\<open>tempfile.TMP_MAX\<close> of candidates it tries.
\<close>

record env =
  getcwd :: path
  gettempdir :: path
  realpath :: "path \<Rightarrow> path"
  http_get :: "string \<Rightarrow> http_result"
  tmp_stem :: "nat \<Rightarrow> string"
  tmp_max :: nat
  set_rank :: "string list \<Rightarrow> string \<Rightarrow> nat"
  is_image :: "(path \<rightharpoonup> byte list) \<Rightarrow> path \<Rightarrow> bool"
  is_video :: "(path \<rightharpoonup> byte list) \<Rightarrow> path \<Rightarrow> bool"
  has_audio :: "path list \<Rightarrow> bool"
  has_image :: "path list \<Rightarrow> bool"
  filter_audio_paths :: "path list \<Rightarrow> path list"
  filter_image_paths :: "path list \<Rightarrow> path list"

text \<open>
  The mutable state: the regular files (by canonical path), the number of candidate stems
  drawn so far, and the three items of \<^verbatim>\<open>state_manager\<close> the modules use.
\<close>

record world =
  files :: "path \<rightharpoonup> byte list"
  tmp_count :: nat
  source_paths :: "path list option"
  target_path :: "path option"
  custom_temp_folder :: "string option"

text \<open>\<^verbatim>\<open>os.path.isfile\<close> follows symbolic links and never raises.\<close>

definition isfile :: "env \<Rightarrow> world \<Rightarrow> path \<Rightarrow> bool" where
  "isfile e w p = (files w (realpath e p) \<noteq> None)"

text \<open>
  \<^verbatim>\<open>shutil.copy2(src, dst)\<close> of an existing file: it raises \<^verbatim>\<open>SameFileError\<close> when both
  names denote one file, and otherwise writes the content of \<open>src\<close> to \<open>dst\<close>.
\<close>

definition copy2 :: "env \<Rightarrow> world \<Rightarrow> path \<Rightarrow> path \<Rightarrow> error + world" where
  "copy2 e w src dst =
     (if realpath e src = realpath e dst then Inl SameFileError
      else Inr (w\<lparr>files := (files w)(realpath e dst := files w (realpath e src))\<rparr>))"

text \<open>\<^verbatim>\<open>Response.raise_for_status\<close>: a status from 400 to 599 raises \<^verbatim>\<open>HTTPError\<close>.\<close>

definition raise_for_status :: "response \<Rightarrow> error + unit" where
  "raise_for_status r =
     (if 400 \<le> status_code r \<and> status_code r < 600 then Inl (HTTPError (status_code r))
      else Inr ())"

text \<open>
  \<^verbatim>\<open>Response.iter_content(chunk_size)\<close> of a streamed body: consecutive pieces of
  \<open>chunk_size\<close> bytes, the last one possibly shorter.
\<close>

function iter_content :: "nat \<Rightarrow> byte list \<Rightarrow> byte list list" where
  "iter_content chunk_size bs =
     (if chunk_size = 0 \<or> bs = [] then []
      else take chunk_size bs # iter_content chunk_size (drop chunk_size bs))"
  by pat_completeness auto
termination
  by (relation "measure (\<lambda>(chunk_size, bs). length bs)") auto

declare iter_content.simps [simp del]

text \<open>
  \<^verbatim>\<open>tempfile.NamedTemporaryFile(delete=False, suffix=..., dir=...)\<close>. The library draws
  candidate stems and opens the directory joined with stem and suffix exclusively: a name
  that exists is skipped. The search below returns the index of the first candidate whose
  name is free, within the given number of tries.
\<close>

fun find_unused :: "env \<Rightarrow> world \<Rightarrow> string \<Rightarrow> path \<Rightarrow> nat \<Rightarrow> nat \<Rightarrow> nat option" where
  "find_unused e w suffix dir 0 k = None"
| "find_unused e w suffix dir (Suc tries) k =
     (if files w (realpath e (join dir (tmp_stem e k @ suffix))) = None then Some k
      else find_unused e w suffix dir tries (Suc k))"

text \<open>
  The file is created empty under the name found; when every try meets an existing name the
  library raises \<^verbatim>\<open>FileExistsError\<close>.
\<close>

definition named_temporary_file ::
    "env \<Rightarrow> world \<Rightarrow> string \<Rightarrow> path \<Rightarrow> error + path \<times> world" where
  "named_temporary_file e w suffix dir =
     (case find_unused e w suffix dir (tmp_max e) (tmp_count w) of
        None \<Rightarrow> Inl FileExistsError
      | Some k \<Rightarrow>
          (let tmp_name = join dir (tmp_stem e k @ suffix)
           in Inr (tmp_name,
                   w\<lparr>files := (files w)(realpath e tmp_name \<mapsto> []), tmp_count := Suc k\<rparr>)))"

text \<open>
  \<^verbatim>\<open>list(set(xs))\<close>: every distinct element once, in the order of the set's ranks.
\<close>

definition list_of_set :: "env \<Rightarrow> string list \<Rightarrow> string list" where
  "list_of_set e xs = sort_key (set_rank e (remdups xs)) (remdups xs)"

text \<open>
  Modelled from the spec: \<^verbatim>\<open>get_first\<close> of \<^verbatim>\<open>facefusion.common_helper\<close> is not among the
  sources. The preview path of the specification is a path or nothing: the first element of
  the list, if there is one.
\<close>

definition get_first :: "'a list \<Rightarrow> 'a option" where
  "get_first xs = (case xs of [] \<Rightarrow> None | x # _ \<Rightarrow> Some x)"

text \<open>
  Modelled from the spec: \<^verbatim>\<open>get_file_size\<close> of \<^verbatim>\<open>facefusion.filesystem\<close> is not among the
  sources. The specification computes the size in bytes by a file-system stat; here it is the
  length of the stored content, and 0 where there is no file.
\<close>

definition get_file_size :: "env \<Rightarrow> world \<Rightarrow> path \<Rightarrow> nat" where
  "get_file_size e w p = (case files w (realpath e p) of None \<Rightarrow> 0 | Some bs \<Rightarrow> length bs)"

subsection \<open>\<^verbatim>\<open>source.py\<close>\<close>

definition is_url :: "string \<Rightarrow> bool" where
  "is_url p = (startswith (lower p) ''http://'' \<or> startswith (lower p) ''https://'')"

definition is_valid_local_file :: "env \<Rightarrow> world \<Rightarrow> path \<Rightarrow> bool" where
  "is_valid_local_file e w p = isfile e w p"

text \<open>
  The suffix of the temporary file (\<^verbatim>\<open>download_file\<close>, and again in
  \<^verbatim>\<open>download_in_chunks\<close>):
  \<^verbatim>\<open>
    _, ext = os.path.splitext(url)
    if not ext:
        ext = ".tmp"
  \<close>
\<close>

definition temp_suffix :: "string \<Rightarrow> string" where
  "temp_suffix url = (let ext = snd (splitext url) in if ext = [] then ''.tmp'' else ext)"

text \<open>
  \<^verbatim>\<open>download_file\<close>: the temporary file is created first, then the request is made; the
  whole body \<^verbatim>\<open>response.content\<close> is written at once.
\<close>

definition download_file :: "env \<Rightarrow> world \<Rightarrow> string \<Rightarrow> error + path \<times> world" where
  "download_file e w url =
     (let temp_dir = gettempdir e;
          ext = temp_suffix url
      in case named_temporary_file e w ext temp_dir of
           Inl err \<Rightarrow> Inl err
         | Inr (tmp_file_path, w1) \<Rightarrow>
             (case http_get e url of
                NetworkFailure \<Rightarrow> Inl ConnectionError
              | Response r \<Rightarrow>
                  (case raise_for_status r of
                     Inl err \<Rightarrow> Inl err
                   | Inr _ \<Rightarrow>
                       Inr (tmp_file_path,
                            w1\<lparr>files := (files w1)(realpath e tmp_file_path \<mapsto> body r)\<rparr>))))"

definition process_path :: "env \<Rightarrow> world \<Rightarrow> string \<Rightarrow> error + path option \<times> world" where
  "process_path e w p =
     (if is_url p then
        (case download_file e w p of
           Inl err \<Rightarrow> Inl err
         | Inr (local_p, w') \<Rightarrow> Inr (Some local_p, w'))
      else if is_valid_local_file e w p then Inr (Some p, w)
      else Inr (None, w))"

definition is_in_allowed_dirs :: "env \<Rightarrow> path \<Rightarrow> bool" where
  "is_in_allowed_dirs e filepath =
     (let real_path = realpath e filepath;
          real_cwd = realpath e (getcwd e);
          real_temp = realpath e (gettempdir e)
      in if startswith real_path real_cwd \<or> startswith real_path real_temp then True
         else False)"

definition ensure_in_temp :: "env \<Rightarrow> world \<Rightarrow> path \<Rightarrow> error + path \<times> world" where
  "ensure_in_temp e w filepath =
     (if is_in_allowed_dirs e filepath then Inr (filepath, w)
      else
        (let temp_dir = gettempdir e;
             base_name = basename filepath;
             new_path = join temp_dir base_name
         in case copy2 e w filepath new_path of
              Inl err \<Rightarrow> Inl err
            | Inr w' \<Rightarrow> Inr (new_path, w')))"

text \<open>
  The loop of \<^verbatim>\<open>update\<close> over \<^verbatim>\<open>all_raw_paths\<close>; \<^verbatim>\<open>if local_p:\<close> is false for
  \<^verbatim>\<open>None\<close> and for the empty string.
\<close>

fun process_paths :: "env \<Rightarrow> world \<Rightarrow> string list \<Rightarrow> error + path list \<times> world" where
  "process_paths e w [] = Inr ([], w)"
| "process_paths e w (p # ps) =
     (case process_path e w p of
        Inl err \<Rightarrow> Inl err
      | Inr (local_p, w1) \<Rightarrow>
          (if local_p \<noteq> None \<and> local_p \<noteq> Some [] then
             (case ensure_in_temp e w1 (the local_p) of
                Inl err \<Rightarrow> Inl err
              | Inr (safe_path, w2) \<Rightarrow>
                  (case process_paths e w2 ps of
                     Inl err \<Rightarrow> Inl err
                   | Inr (rest, w3) \<Rightarrow> Inr (safe_path # rest, w3)))
           else process_paths e w1 ps))"

text \<open>The first two steps of \<^verbatim>\<open>update\<close> and the removal of duplicates.\<close>

definition textbox_paths :: "string \<Rightarrow> string list" where
  "textbox_paths text_str = map strip (filter (\<lambda>p. strip p \<noteq> []) (split_on CHR '','' text_str))"

definition file_paths :: "ui_file option list \<Rightarrow> string list" where
  "file_paths fs = map (\<lambda>f. name (the f)) (filter (\<lambda>f. f \<noteq> None \<and> name (the f) \<noteq> []) fs)"

definition all_raw_paths :: "env \<Rightarrow> string \<Rightarrow> ui_file option list \<Rightarrow> string list" where
  "all_raw_paths e text_str fs = list_of_set e (textbox_paths text_str @ file_paths fs)"

text \<open>What \<^verbatim>\<open>update\<close> hands to the two preview components.\<close>

record source_view =
  audio_value :: "path option"
  image_value :: "path option"

definition update_source ::
    "env \<Rightarrow> world \<Rightarrow> string \<Rightarrow> ui_file option list \<Rightarrow> error + source_view \<times> world" where
  "update_source e w text_str fs =
     (case process_paths e w (all_raw_paths e text_str fs) of
        Inl err \<Rightarrow> Inl err
      | Inr (processed_paths, w') \<Rightarrow>
          (if has_audio e processed_paths \<or> has_image e processed_paths then
             Inr (\<lparr>audio_value = get_first (filter_audio_paths e processed_paths),
                   image_value = get_first (filter_image_paths e processed_paths)\<rparr>,
                  w'\<lparr>source_paths := Some processed_paths\<rparr>)
           else
             Inr (\<lparr>audio_value = None, image_value = None\<rparr>,
                  w'\<lparr>source_paths := None\<rparr>)))"

subsection \<open>\<^verbatim>\<open>target.py\<close>\<close>

definition FILE_SIZE_LIMIT :: nat where
  "FILE_SIZE_LIMIT = 512 * 1024 * 1024"

text \<open>
  What \<^verbatim>\<open>download_in_chunks\<close> yields: the tuple \<^verbatim>\<open>(downloaded, total, tmp_path)\<close> after a
  chunk, and the path string at the end.
\<close>

datatype dl_event = Progress nat int path | Final path

text \<open>
  The loop over \<^verbatim>\<open>r.iter_content\<close>: an empty chunk is skipped, any other chunk is written
  and counted, and a tuple is yielded. The result is the yielded tuples, the content written
  and the final count.
\<close>

fun write_chunks ::
    "int \<Rightarrow> path \<Rightarrow> byte list list \<Rightarrow> byte list \<Rightarrow> nat \<Rightarrow> dl_event list \<times> byte list \<times> nat" where
  "write_chunks total_size tmp_path [] written downloaded = ([], written, downloaded)"
| "write_chunks total_size tmp_path (chunk # chunks) written downloaded =
     (if chunk \<noteq> [] then
        (case write_chunks total_size tmp_path chunks (written @ chunk)
                (downloaded + length chunk) of
           (evs, written', downloaded') \<Rightarrow>
             (Progress (downloaded + length chunk) total_size tmp_path # evs,
              written', downloaded'))
      else write_chunks total_size tmp_path chunks written downloaded)"

definition chunk_size :: nat where
  "chunk_size = 1024 * 256"

text \<open>The folder \<^verbatim>\<open>download_in_chunks\<close> writes to: the user's folder, or the system's.\<close>

definition download_folder :: "env \<Rightarrow> world \<Rightarrow> path" where
  "download_folder e w =
     (case custom_temp_folder w of
        None \<Rightarrow> gettempdir e
      | Some custom_folder \<Rightarrow> if custom_folder \<noteq> [] then custom_folder else gettempdir e)"

definition download_in_chunks ::
    "env \<Rightarrow> world \<Rightarrow> string \<Rightarrow> error + dl_event list \<times> world" where
  "download_in_chunks e w url =
     (let ext = temp_suffix url
      in case http_get e url of
           NetworkFailure \<Rightarrow> Inl ConnectionError
         | Response r \<Rightarrow>
             (case raise_for_status r of
                Inl err \<Rightarrow> Inl err
              | Inr _ \<Rightarrow>
                  (case content_length_header r of
                     BadLength \<Rightarrow> Inl ValueError
                   | header \<Rightarrow>
                       (let total_size = (case header of Length n \<Rightarrow> n | _ \<Rightarrow> 0)
                        in case named_temporary_file e w ext (download_folder e w) of
                             Inl err \<Rightarrow> Inl err
                           | Inr (tmp_path, w1) \<Rightarrow>
                               (case write_chunks total_size tmp_path
                                       (iter_content chunk_size (body r)) [] 0 of
                                  (evs, written, downloaded) \<Rightarrow>
                                    Inr (evs @ [Final tmp_path],
                                         w1\<lparr>files :=
                                              (files w1)(realpath e tmp_path \<mapsto> written)\<rparr>))))))"

definition is_in_allowed_dir :: "env \<Rightarrow> path \<Rightarrow> bool" where
  "is_in_allowed_dir e p =
     (let real_p = realpath e p;
          real_cwd = realpath e (getcwd e);
          real_temp = realpath e (gettempdir e)
      in startswith real_p real_cwd \<or> startswith real_p real_temp)"

definition ensure_in_allowed_dir :: "env \<Rightarrow> world \<Rightarrow> path \<Rightarrow> error + path \<times> world" where
  "ensure_in_allowed_dir e w filepath =
     (if \<not> isfile e w filepath then Inr ([], w)
      else if is_in_allowed_dir e filepath then Inr (filepath, w)
      else
        (let temp_dir = gettempdir e;
             base_name = basename filepath;
             new_path = join temp_dir base_name
         in case copy2 e w filepath new_path of
              Inl err \<Rightarrow> Inl err
            | Inr w' \<Rightarrow> Inr (new_path, w')))"

text \<open>
  What \<^verbatim>\<open>update\<close> yields: the image (nothing, a path, or the first frame of a video), the
  video and the message.
\<close>

datatype image_value = NoImage | ImagePath path | Frame path

datatype message =
    NoFileOrUrl
  | Downloading int
  | DownloadedBytes nat
  | DownloadComplete
  | InvalidOrMissing
  | ImageLoaded
  | VideoTooLarge
  | VideoLoaded
  | NeitherImageNorVideo

type_synonym ui_update = "image_value \<times> path option \<times> message"

text \<open>
  The loop of \<^verbatim>\<open>update\<close> over the generator. The percentage is
  \<^verbatim>\<open>int(downloaded * 100 / total)\<close>, here as integer division.
\<close>

fun update_parts ::
    "env \<Rightarrow> world \<Rightarrow> path option \<Rightarrow> dl_event list \<Rightarrow>
     error + ui_update list \<times> path option \<times> world" where
  "update_parts e w local_path [] = Inr ([], local_path, w)"
| "update_parts e w local_path (Progress downloaded total_bytes tmp_file_path # parts) =
     (case update_parts e w local_path parts of
        Inl err \<Rightarrow> Inl err
      | Inr (us, local_path', w') \<Rightarrow>
          Inr ((NoImage, None,
                (if total_bytes > 0 then Downloading (int downloaded * 100 div total_bytes)
                 else DownloadedBytes downloaded)) # us, local_path', w'))"
| "update_parts e w local_path (Final part # parts) =
     (case ensure_in_allowed_dir e w part of
        Inl err \<Rightarrow> Inl err
      | Inr (safe_path, w1) \<Rightarrow>
          (case update_parts e w1 (Some safe_path) parts of
             Inl err \<Rightarrow> Inl err
           | Inr (us, local_path', w') \<Rightarrow>
               Inr ((NoImage, None, DownloadComplete) # us, local_path', w')))"

text \<open>The end of \<^verbatim>\<open>update\<close>, from \<^verbatim>\<open>if not local_path:\<close> on.\<close>

definition update_finish :: "env \<Rightarrow> world \<Rightarrow> path option \<Rightarrow> ui_update list \<times> world" where
  "update_finish e w local_path =
     (if local_path = None \<or> local_path = Some [] then
        ([(NoImage, None, InvalidOrMissing)], w\<lparr>target_path := None\<rparr>)
      else if is_image e (files w) (the local_path) then
        ([(ImagePath (the local_path), None, ImageLoaded)],
         w\<lparr>target_path := local_path\<rparr>)
      else if is_video e (files w) (the local_path) then
        (if get_file_size e w (the local_path) > FILE_SIZE_LIMIT then
           ([(Frame (the local_path), None, VideoTooLarge)], w\<lparr>target_path := local_path\<rparr>)
         else
           ([(NoImage, local_path, VideoLoaded)], w\<lparr>target_path := local_path\<rparr>))
      else
        ([(NoImage, None, NeitherImageNorVideo)], w\<lparr>target_path := None\<rparr>))"

definition final_raw_path :: "string \<Rightarrow> ui_file option \<Rightarrow> string" where
  "final_raw_path textbox_value file =
     (let text_path = (if textbox_value \<noteq> [] then strip textbox_value else []);
          file_path = (case file of None \<Rightarrow> [] | Some f \<Rightarrow> name f)
      in if file_path \<noteq> [] then file_path else text_path)"

definition update_target ::
    "env \<Rightarrow> world \<Rightarrow> string \<Rightarrow> ui_file option \<Rightarrow> error + ui_update list \<times> world" where
  "update_target e w textbox_value file =
     (let raw = final_raw_path textbox_value file
      in if raw = [] then
           Inr ([(NoImage, None, NoFileOrUrl)], w\<lparr>target_path := None\<rparr>)
         else if startswith (lower raw) ''http://'' \<or> startswith (lower raw) ''https://'' then
           (case download_in_chunks e w raw of
              Inl err \<Rightarrow> Inl err
            | Inr (parts, w1) \<Rightarrow>
                (case update_parts e w1 None parts of
                   Inl err \<Rightarrow> Inl err
                 | Inr (us, local_path, w2) \<Rightarrow>
                     (case update_finish e w2 local_path of
                        (vs, w3) \<Rightarrow> Inr (us @ vs, w3))))
         else
           (case ensure_in_allowed_dir e w raw of
              Inl err \<Rightarrow> Inl err
            | Inr (local_path, w1) \<Rightarrow> Inr (update_finish e w1 (Some local_path))))"

subsection \<open>The words of the specification\<close>

text \<open>
  Containment as the specification defines it: a path is a path-prefix descendant of a root
  when it is the root, or continues the root after a separator.
\<close>

definition path_under :: "path \<Rightarrow> path \<Rightarrow> bool" where
  "path_under root p =
     (p = root \<or> startswith p (if endswith root ''/'' then root else root @ ''/''))"

text \<open>
  The allowed roots of the specification: the resolved working directory, the resolved
  temporary directory, and the configured download directory when there is one.
\<close>

definition allowed_roots_spec :: "env \<Rightarrow> world \<Rightarrow> path list" where
  "allowed_roots_spec e w =
     [realpath e (getcwd e), realpath e (gettempdir e)] @
     (case custom_temp_folder w of
        None \<Rightarrow> []
      | Some d \<Rightarrow> if d \<noteq> [] then [realpath e d] else [])"

definition contained_spec :: "env \<Rightarrow> world \<Rightarrow> path \<Rightarrow> bool" where
  "contained_spec e w p = list_ex (\<lambda>root. path_under root (realpath e p)) (allowed_roots_spec e w)"

text \<open>The three classes of the specification's path classifier, in its words.\<close>

datatype ref_class = Remote | LocalExisting | LocalMissing

definition classify_spec :: "env \<Rightarrow> world \<Rightarrow> string \<Rightarrow> ref_class" where
  "classify_spec e w p =
     (if startswith (lower p) ''http://'' \<or> startswith (lower p) ''https://'' then Remote
      else if isfile e w p then LocalExisting
      else LocalMissing)"


text \<open>
  The extension of the file that a URL names, as the specification's words read: the scheme,
  the host, the query and the fragment are no part of a file name, so the extension is the
  text from the last dot of the last segment of the URL's path, and there is none when that
  segment holds no dot.
\<close>

definition url_path :: "string \<Rightarrow> string" where
  "url_path url =
     (let no_query = takeWhile (\<lambda>c. c \<noteq> CHR ''?'' \<and> c \<noteq> CHR ''#'') url;
          after_scheme = drop 3 (dropWhile (\<lambda>c. c \<noteq> CHR '':'') no_query)
      in dropWhile (\<lambda>c. c \<noteq> CHR ''/'') after_scheme)"

definition url_extension_spec :: "string \<Rightarrow> string" where
  "url_extension_spec url =
     (let segment = rev (takeWhile (\<lambda>c. c \<noteq> CHR ''/'') (rev (url_path url)))
      in if CHR ''.'' \<in> set segment
         then CHR ''.'' # rev (takeWhile (\<lambda>c. c \<noteq> CHR ''.'') (rev segment))
         else [])"

text \<open>
  The suffix that the code takes, described without indices: in the part of the whole string
  after its last separator, leading dots set aside, the text from the last dot on; nothing
  when no dot is left.
\<close>

definition last_segment :: "string \<Rightarrow> string" where
  "last_segment s = rev (takeWhile (\<lambda>c. c \<noteq> CHR ''/'') (rev s))"

definition dotted_suffix :: "string \<Rightarrow> string" where
  "dotted_suffix s =
     (let named = dropWhile (\<lambda>c. c = CHR ''.'') (last_segment s)
      in if CHR ''.'' \<in> set named
         then CHR ''.'' # rev (takeWhile (\<lambda>c. c \<noteq> CHR ''.'') (rev named))
         else [])"




subsection \<open>A small concrete world\<close>

text \<open>
  The working directory is \<open>/app\<close>, the temporary directory \<open>/tmp\<close>; there are no symbolic
  links, so a name resolves to itself when it is absolute and against \<open>/app\<close> otherwise.
\<close>

definition ex_realpath :: "path \<Rightarrow> path" where
  "ex_realpath p =
     (if startswith p ''/'' then p
      else if startswith p ''./'' then ''/app/'' @ drop 2 p
      else ''/app/'' @ p)"

definition ex_http_get :: "string \<Rightarrow> http_result" where
  "ex_http_get url =
     (if url = ''https://example.com/cat.png'' then
        Response \<lparr>status_code = 200, content_length_header = Length 3, body = [1, 2, 3]\<rparr>
      else if url = ''https://example.com/download'' then
        Response \<lparr>status_code = 200, content_length_header = NoLength, body = [7]\<rparr>
      else if url = ''https://example.com'' then
        Response \<lparr>status_code = 200, content_length_header = NoLength, body = [8]\<rparr>
      else if url = ''https://example.com/cat.png?size=large'' then
        Response \<lparr>status_code = 200, content_length_header = Length 3, body = [1, 2, 3]\<rparr>
      else if url = ''http://bad-host/x.png'' then NetworkFailure
      else Response \<lparr>status_code = 404, content_length_header = NoLength, body = []\<rparr>)"

definition ex_env :: env where
  "ex_env =
     \<lparr>getcwd = ''/app'', gettempdir = ''/tmp'', realpath = ex_realpath,
      http_get = ex_http_get, tmp_stem = (\<lambda>n. ''tmp'' @ replicate n CHR ''a''),
      tmp_max = 10000, set_rank = (\<lambda>xs p. length p),
      is_image = (\<lambda>fs p. endswith p ''.png'' \<or> endswith p ''.jpg''),
      is_video = (\<lambda>fs p. endswith p ''.mp4''),
      has_audio = (\<lambda>ps. False),
      has_image = (\<lambda>ps. list_ex (\<lambda>p. endswith p ''.png'' \<or> endswith p ''.jpg'') ps),
      filter_audio_paths = (\<lambda>ps. []),
      filter_image_paths = filter (\<lambda>p. endswith p ''.png'' \<or> endswith p ''.jpg'')\<rparr>"

definition ex_files :: "path \<rightharpoonup> byte list" where
  "ex_files =
     [''/app/valid.png'' \<mapsto> [1], ''/app/a.jpg'' \<mapsto> [2], ''/tmpx/a.png'' \<mapsto> [3],
      ''/home/u/b.png'' \<mapsto> [4, 5], ''/data/dl/c.png'' \<mapsto> [6]]"

definition ex_world :: world where
  "ex_world =
     \<lparr>files = ex_files, tmp_count = 0, source_paths = None, target_path = None,
      custom_temp_folder = None\<rparr>"

text \<open>A world whose only file is a video of \<open>n\<close> bytes.\<close>

definition ex_video_world :: "nat \<Rightarrow> world" where
  "ex_video_world n = ex_world\<lparr>files := [''/app/v.mp4'' \<mapsto> replicate n 0]\<rparr>"

text \<open>A world whose only file is an image of \<open>n\<close> bytes.\<close>

definition ex_image_world :: "nat \<Rightarrow> world" where
  "ex_image_world n = ex_world\<lparr>files := [''/app/big.png'' \<mapsto> replicate n 0]\<rparr>"

text \<open>A world in which the name of the first candidate for a \<open>.png\<close> file is taken.\<close>

definition ex_taken_world :: world where
  "ex_taken_world = ex_world\<lparr>files := ex_files(''/tmp/tmp.png'' \<mapsto> [9])\<rparr>"

text \<open>The same world after the user has chosen \<open>/data/dl\<close> as the download folder.\<close>

definition ex_dl_world :: world where
  "ex_dl_world = ex_world\<lparr>custom_temp_folder := Some ''/data/dl''\<rparr>"

section \<open>Properties\<close>

subsection \<open>The download loop\<close>













subsection \<open>Temporary files\<close>

lemma find_unused_pos:
  "0 < tries \<Longrightarrow>
   find_unused e w suffix dir tries k =
     (if files w (realpath e (join dir (tmp_stem e k @ suffix))) = None then Some k
      else find_unused e w suffix dir (tries - 1) (Suc k))"
  by (cases tries) simp_all

lemma find_unused_Some:
  "find_unused e w suffix dir tries k = Some j \<Longrightarrow>
   k \<le> j \<and> files w (realpath e (join dir (tmp_stem e j @ suffix))) = None"
proof (induction tries arbitrary: k)
  case 0
  then show ?case by simp
next
  case (Suc tries)
  show ?case
  proof (cases "files w (realpath e (join dir (tmp_stem e k @ suffix))) = None")
    case True
    with Suc.prems show ?thesis by simp
  next
    case False
    with Suc.prems have "find_unused e w suffix dir tries (Suc k) = Some j" by simp
    from Suc.IH[OF this] show ?thesis by simp
  qed
qed

lemma named_temporary_file_Inr:
  assumes "named_temporary_file e w suffix dir = Inr (p, w1)"
  shows "\<exists>j. tmp_count w \<le> j \<and> p = join dir (tmp_stem e j @ suffix) \<and>
             files w (realpath e p) = None \<and>
             w1 = w\<lparr>files := (files w)(realpath e p \<mapsto> []), tmp_count := Suc j\<rparr>"
proof (cases "find_unused e w suffix dir (tmp_max e) (tmp_count w)")
  case None
  with assms show ?thesis by (simp add: named_temporary_file_def)
next
  case (Some j)
  from find_unused_Some[OF Some] Some assms show ?thesis
    by (auto simp: named_temporary_file_def Let_def)
qed

subsection \<open>The shape of a successful download\<close>



lemma download_file_response:
  assumes "download_file e w url = Inr (p, w')"
  shows "\<exists>r. http_get e url = Response r"
  using assms
  by (cases "http_get e url") (auto simp: download_file_def Let_def split: sum.splits)

lemma download_in_chunks_response:
  assumes "download_in_chunks e w url = Inr (evs, w')"
  shows "\<exists>r. http_get e url = Response r"
  using assms by (cases "http_get e url") (auto simp: download_in_chunks_def Let_def)

subsection \<open>Evaluation of the concrete world\<close>

lemmas ex_defs = ex_env_def ex_world_def ex_files_def ex_realpath_def ex_http_get_def
text \<open>Lower-casing, character by character.\<close>

lemma lower_char_other: "c \<notin> set upper_letters \<Longrightarrow> lower_char c = c"
proof -
  assume "c \<notin> set upper_letters"
  moreover have "length upper_letters = length lower_letters"
    by (simp add: upper_letters_def lower_letters_def)
  ultimately have "map_of (zip upper_letters lower_letters) c = None"
    by (simp add: map_of_zip_is_None)
  then show ?thesis by (simp add: lower_char_def)
qed

lemma lower_char_upper:
  "lower_char CHR ''H'' = CHR ''h''" "lower_char CHR ''T'' = CHR ''t''"
  "lower_char CHR ''P'' = CHR ''p''" "lower_char CHR ''S'' = CHR ''s''"
  by (simp_all add: lower_char_def upper_letters_def lower_letters_def)

lemmas str_defs = startswith_def endswith_def lower_def lower_char_other lower_char_upper
  upper_letters_def strip_def is_space_def rfind_def basename_def join_def splitext_def
  temp_suffix_def
lemmas tmp_defs = named_temporary_file_def find_unused_pos


lemma ex_cat_suffix: "temp_suffix ''https://example.com/cat.png'' = ''.png''"
  by (simp add: str_defs splitext_loop.simps)

lemma ex_cat_tmp_file:
  "named_temporary_file ex_env ex_world ''.png'' ''/tmp'' =
     Inr (''/tmp/tmp.png'',
          ex_world\<lparr>files := (files ex_world)(''/tmp/tmp.png'' \<mapsto> []), tmp_count := Suc 0\<rparr>)"
  by (simp add: tmp_defs ex_defs str_defs Let_def)



lemma ex_video_size: "get_file_size ex_env (ex_video_world n) ''/app/v.mp4'' = n"
  by (simp add: get_file_size_def ex_video_world_def ex_env_def ex_realpath_def startswith_def)

lemma ex_video_kind:
  "\<not> is_image ex_env (files (ex_video_world n)) ''/app/v.mp4''"
  "is_video ex_env (files (ex_video_world n)) ''/app/v.mp4''"
  by (simp_all add: ex_env_def endswith_def)

lemma ex_image_size: "get_file_size ex_env (ex_image_world n) ''/app/big.png'' = n"
  by (simp add: get_file_size_def ex_image_world_def ex_env_def ex_realpath_def startswith_def)

lemma ex_image_kind: "is_image ex_env (files (ex_image_world n)) ''/app/big.png''"
  by (simp add: ex_env_def endswith_def)

lemmas src_defs = process_path_def is_url_def is_valid_local_file_def ensure_in_temp_def
  is_in_allowed_dirs_def isfile_def download_file_def copy2_def raise_for_status_def
lemmas tgt_defs = update_target_def final_raw_path_def ensure_in_allowed_dir_def
  is_in_allowed_dir_def isfile_def update_finish_def copy2_def

lemma ex_textbox_bad:
  "textbox_paths ''valid.png, http://bad-host/x.png'' = [''valid.png'', ''http://bad-host/x.png'']"
  by (simp add: textbox_paths_def str_defs)

lemma ex_raw_bad:
  "all_raw_paths ex_env ''valid.png, http://bad-host/x.png'' [] =
     [''valid.png'', ''http://bad-host/x.png'']"
  by (simp add: all_raw_paths_def list_of_set_def ex_textbox_bad file_paths_def ex_env_def)

lemma ex_textbox_a: "textbox_paths ''a.jpg, ./a.jpg'' = [''a.jpg'', ''./a.jpg'']"
  by (simp add: textbox_paths_def str_defs)

lemma ex_raw_a: "all_raw_paths ex_env ''a.jpg, ./a.jpg'' [] = [''a.jpg'', ''./a.jpg'']"
  by (simp add: all_raw_paths_def list_of_set_def ex_textbox_a file_paths_def ex_env_def)

lemma ex_process_a:
  "process_paths ex_env ex_world [''a.jpg'', ''./a.jpg''] = Inr ([''a.jpg'', ''./a.jpg''], ex_world)"
  by (simp add: src_defs ex_defs str_defs)

subsection \<open>The fetchers\<close>






subsection \<open>The path classifier\<close>

text \<open>
  Claim C7. The classifier of the specification is what \<^verbatim>\<open>process_path\<close> branches on: a
  reference is remote exactly when \<^verbatim>\<open>is_url\<close> holds, that is when its lower-case form
  starts with \<open>http://\<close> or \<open>https://\<close>; it is an existing local file exactly when it is not
  remote and \<^verbatim>\<open>is_valid_local_file\<close> holds; it is missing otherwise. Neither test can
  raise, and \<^verbatim>\<open>process_path\<close> downloads in the first case, returns the path in the second
  and returns nothing in the third.
\<close>

theorem process_path_classifies:
  "(classify_spec e w p = Remote) = is_url p \<and>
   (classify_spec e w p = LocalExisting) = (\<not> is_url p \<and> is_valid_local_file e w p) \<and>
   (classify_spec e w p = LocalMissing) = (\<not> is_url p \<and> \<not> is_valid_local_file e w p) \<and>
   process_path e w p =
     (case classify_spec e w p of
        Remote \<Rightarrow>
          (case download_file e w p of
             Inl err \<Rightarrow> Inl err
           | Inr (local_p, w') \<Rightarrow> Inr (Some local_p, w'))
      | LocalExisting \<Rightarrow> Inr (Some p, w)
      | LocalMissing \<Rightarrow> Inr (None, w))"
  by (simp add: classify_spec_def is_url_def is_valid_local_file_def process_path_def)

theorem process_path_classifies_witness:
  "classify_spec ex_env ex_world ''HTTP://bad-host/x.png'' = Remote \<and>
   process_path ex_env ex_world ''HTTP://bad-host/x.png'' = Inl (HTTPError 404) \<and>
   classify_spec ex_env ex_world ''valid.png'' = LocalExisting \<and>
   process_path ex_env ex_world ''valid.png'' = Inr (Some ''valid.png'', ex_world) \<and>
   classify_spec ex_env ex_world ''ftp://host/missing.jpg'' = LocalMissing \<and>
   process_path ex_env ex_world ''ftp://host/missing.jpg'' = Inr (None, ex_world)"
proof -
  have c1: "classify_spec ex_env ex_world ''HTTP://bad-host/x.png'' = Remote"
    by (simp add: classify_spec_def str_defs)
  have c2: "classify_spec ex_env ex_world ''valid.png'' = LocalExisting"
    by (simp add: classify_spec_def isfile_def ex_defs str_defs)
  have c3: "classify_spec ex_env ex_world ''ftp://host/missing.jpg'' = LocalMissing"
    by (simp add: classify_spec_def isfile_def ex_defs str_defs)
  have d: "download_file ex_env ex_world ''HTTP://bad-host/x.png'' = Inl (HTTPError 404)"
    by (simp add: download_file_def raise_for_status_def Let_def ex_defs tmp_defs str_defs
          splitext_loop.simps)
  have p1: "process_path ex_env ex_world ''HTTP://bad-host/x.png'' = Inl (HTTPError 404)"
    using process_path_classifies[of ex_env ex_world "''HTTP://bad-host/x.png''"]
    by (simp add: c1 d)
  have p2: "process_path ex_env ex_world ''valid.png'' = Inr (Some ''valid.png'', ex_world)"
    using process_path_classifies[of ex_env ex_world "''valid.png''"]
    by (simp add: c2)
  have p3: "process_path ex_env ex_world ''ftp://host/missing.jpg'' = Inr (None, ex_world)"
    using process_path_classifies[of ex_env ex_world "''ftp://host/missing.jpg''"]
    by (simp add: c3)
  from c1 c2 c3 p1 p2 p3 show ?thesis by blast
qed


subsection \<open>The size limit\<close>

text \<open>
  Claim C6, as stated, fails for a file that is an image: an image of 512 MiB and one byte is
  loaded as any other image, and nothing marks it as oversized.
\<close>
theorem oversized_image_counterexample:
  "get_file_size ex_env (ex_image_world (512 * 1024 * 1024 + 1)) ''/app/big.png'' =
     512 * 1024 * 1024 + 1 \<and>
   update_target ex_env (ex_image_world (512 * 1024 * 1024 + 1)) ''/app/big.png'' None =
     Inr ([(ImagePath ''/app/big.png'', None, ImageLoaded)],
          (ex_image_world (512 * 1024 * 1024 + 1))\<lparr>target_path := Some ''/app/big.png''\<rparr>)"
proof -
  have f: "isfile ex_env (ex_image_world n) ''/app/big.png''" for n
    by (simp add: isfile_def ex_image_world_def ex_env_def ex_realpath_def startswith_def)
  have g: "is_in_allowed_dir ex_env ''/app/big.png''"
    by (simp add: is_in_allowed_dir_def ex_env_def ex_realpath_def startswith_def)
  have r: "final_raw_path ''/app/big.png'' None = ''/app/big.png''"
    by (simp add: final_raw_path_def strip_def is_space_def)
  have u: "\<not> (startswith (lower ''/app/big.png'') ''http://'' \<or>
               startswith (lower ''/app/big.png'') ''https://'')"
    by (simp add: str_defs)
  have "update_target ex_env (ex_image_world n) ''/app/big.png'' None =
     Inr ([(ImagePath ''/app/big.png'', None, ImageLoaded)],
          (ex_image_world n)\<lparr>target_path := Some ''/app/big.png''\<rparr>)" for n
    using u by (simp add: update_target_def r ensure_in_allowed_dir_def f g update_finish_def Let_def
          ex_image_kind)
  then show ?thesis by (simp add: ex_image_size)
qed

text \<open>
  Claim C6, amended. The limit is 512 MiB, and the size is tested for videos only. For a file
  that \<^verbatim>\<open>update\<close> takes as a video, the first-frame fallback for an oversized file is
  chosen exactly when the size of the file is strictly greater than 512 * 1024 * 1024 bytes,
  and the video itself is shown exactly when the size is at most that. A file that
  \<^verbatim>\<open>update\<close> takes as an image is shown whatever its size.
\<close>
theorem oversize_threshold_for_videos:
  assumes "p \<noteq> []"
  shows "FILE_SIZE_LIMIT = 536870912 \<and>
         (is_image e (files w) p \<longrightarrow>
            fst (update_finish e w (Some p)) = [(ImagePath p, None, ImageLoaded)]) \<and>
         (\<not> is_image e (files w) p \<and> is_video e (files w) p \<longrightarrow>
            (fst (update_finish e w (Some p)) = [(Frame p, None, VideoTooLarge)]) =
              (get_file_size e w p > 512 * 1024 * 1024) \<and>
            (fst (update_finish e w (Some p)) = [(NoImage, Some p, VideoLoaded)]) =
              (get_file_size e w p \<le> 512 * 1024 * 1024))"
  using assms by (simp add: update_finish_def FILE_SIZE_LIMIT_def)

theorem oversize_threshold_for_videos_witness:
  "fst (update_finish ex_env (ex_video_world (512 * 1024 * 1024 + 1)) (Some ''/app/v.mp4'')) =
     [(Frame ''/app/v.mp4'', None, VideoTooLarge)] \<and>
   fst (update_finish ex_env (ex_video_world (512 * 1024 * 1024)) (Some ''/app/v.mp4'')) =
     [(NoImage, Some ''/app/v.mp4'', VideoLoaded)] \<and>
   fst (update_finish ex_env (ex_image_world (512 * 1024 * 1024 + 1)) (Some ''/app/big.png'')) =
     [(ImagePath ''/app/big.png'', None, ImageLoaded)]"
proof -
  have ne: "''/app/v.mp4'' \<noteq> []" "''/app/big.png'' \<noteq> []" by simp_all
  note v = oversize_threshold_for_videos[OF ne(1), THEN conjunct2, THEN conjunct2, rule_format,
      OF conjI, OF ex_video_kind]
  have 1: "fst (update_finish ex_env (ex_video_world (512 * 1024 * 1024 + 1)) (Some ''/app/v.mp4'')) =
     [(Frame ''/app/v.mp4'', None, VideoTooLarge)]"
    using v[of "512 * 1024 * 1024 + 1"] by (simp add: ex_video_size)
  have 2: "fst (update_finish ex_env (ex_video_world (512 * 1024 * 1024)) (Some ''/app/v.mp4'')) =
     [(NoImage, Some ''/app/v.mp4'', VideoLoaded)]"
    using v[of "512 * 1024 * 1024"] by (simp add: ex_video_size)
  have 3: "fst (update_finish ex_env (ex_image_world (512 * 1024 * 1024 + 1)) (Some ''/app/big.png'')) =
     [(ImagePath ''/app/big.png'', None, ImageLoaded)]"
    using oversize_threshold_for_videos[OF ne(2), THEN conjunct2, THEN conjunct1, rule_format,
        OF ex_image_kind] .
  from 1 2 3 show ?thesis by blast
qed

subsection \<open>Upload before textbox\<close>

text \<open>
  Claim C10. In the single-reference flow, when the uploaded file has a path, that path is the
  one processed, and the outcome of \<^verbatim>\<open>update\<close> does not depend on the textbox: it is the
  outcome for an empty textbox.
\<close>

theorem upload_takes_priority:
  assumes "name f \<noteq> []"
  shows "final_raw_path textbox_value (Some f) = name f \<and>
         update_target e w textbox_value (Some f) = update_target e w [] (Some f)"
  using assms by (simp add: update_target_def final_raw_path_def)

theorem upload_takes_priority_witness:
  "final_raw_path ''http://bad-host/x.png'' (Some \<lparr>name = ''/app/valid.png''\<rparr>) = ''/app/valid.png'' \<and>
   update_target ex_env ex_world ''http://bad-host/x.png'' (Some \<lparr>name = ''/app/valid.png''\<rparr>) =
     Inr ([(ImagePath ''/app/valid.png'', None, ImageLoaded)],
          ex_world\<lparr>target_path := Some ''/app/valid.png''\<rparr>) \<and>
   update_target ex_env ex_world ''http://bad-host/x.png'' None = Inl ConnectionError"
proof -
  have a: "update_target ex_env ex_world [] (Some \<lparr>name = ''/app/valid.png''\<rparr>) =
     Inr ([(ImagePath ''/app/valid.png'', None, ImageLoaded)],
          ex_world\<lparr>target_path := Some ''/app/valid.png''\<rparr>)"
    by (simp add: update_target_def final_raw_path_def ensure_in_allowed_dir_def isfile_def
          is_in_allowed_dir_def update_finish_def ex_defs str_defs Let_def)
  have b: "update_target ex_env ex_world ''http://bad-host/x.png'' None = Inl ConnectionError"
    by (simp add: update_target_def final_raw_path_def download_in_chunks_def ex_defs
          str_defs)
  show ?thesis
    using upload_takes_priority[of "\<lparr>name = ''/app/valid.png''\<rparr>" "''http://bad-host/x.png''" ex_env ex_world]
      a b by simp
qed

subsection \<open>Containment\<close>

text \<open>
  Claim C1. The claim says that every path the coordinator returns is a path-prefix descendant
  of an allowed root. Both guards test containment with \<^verbatim>\<open>str.startswith\<close> on the resolved
  strings, so a file in a sibling directory whose name merely begins with the name of a root
  passes. With the temporary directory \<open>/tmp\<close> and the working directory \<open>/app\<close>, the existing
  file \<open>/tmpx/a.png\<close> lies under no allowed root, both guards accept it, and both flows return
  it as it is.
\<close>
theorem allowed_dir_prefix_escape:
  "isfile ex_env ex_world ''/tmpx/a.png'' \<and>
   \<not> contained_spec ex_env ex_world ''/tmpx/a.png'' \<and>
   is_in_allowed_dir ex_env ''/tmpx/a.png'' \<and>
   is_in_allowed_dirs ex_env ''/tmpx/a.png'' \<and>
   process_paths ex_env ex_world [''/tmpx/a.png''] = Inr ([''/tmpx/a.png''], ex_world) \<and>
   update_target ex_env ex_world ''/tmpx/a.png'' None =
     Inr ([(ImagePath ''/tmpx/a.png'', None, ImageLoaded)],
          ex_world\<lparr>target_path := Some ''/tmpx/a.png''\<rparr>)"
proof -
  have 1: "isfile ex_env ex_world ''/tmpx/a.png''"
    by (simp add: isfile_def ex_defs str_defs)
  have 2: "\<not> contained_spec ex_env ex_world ''/tmpx/a.png''"
    by (simp add: contained_spec_def allowed_roots_spec_def path_under_def ex_defs str_defs)
  have 3: "is_in_allowed_dir ex_env ''/tmpx/a.png''"
    by (simp add: is_in_allowed_dir_def ex_defs str_defs)
  have 4: "is_in_allowed_dirs ex_env ''/tmpx/a.png''"
    by (simp add: is_in_allowed_dirs_def ex_defs str_defs)
  have 5: "process_paths ex_env ex_world [''/tmpx/a.png''] = Inr ([''/tmpx/a.png''], ex_world)"
    by (simp add: src_defs tmp_defs ex_defs str_defs splitext_loop.simps Let_def)
  have 6: "update_target ex_env ex_world ''/tmpx/a.png'' None =
     Inr ([(ImagePath ''/tmpx/a.png'', None, ImageLoaded)],
          ex_world\<lparr>target_path := Some ''/tmpx/a.png''\<rparr>)"
    by (simp add: tgt_defs ex_defs str_defs Let_def)
  from 1 2 3 4 5 6 show ?thesis by blast
qed

subsection \<open>Failures in the batch flow\<close>

text \<open>
  Claim C2, as stated, fails: a batch of an existing local file and a URL whose host cannot be
  reached does not return the entry of the local file; the error of the request leaves
  \<^verbatim>\<open>update\<close>.
\<close>

theorem batch_fetch_failure_counterexample:
  "textbox_paths ''valid.png, http://bad-host/x.png'' = [''valid.png'', ''http://bad-host/x.png''] \<and>
   is_valid_local_file ex_env ex_world ''valid.png'' \<and>
   is_url ''http://bad-host/x.png'' \<and>
   http_get ex_env ''http://bad-host/x.png'' = NetworkFailure \<and>
   update_source ex_env ex_world ''valid.png, http://bad-host/x.png'' [] = Inl ConnectionError"
proof -
  have 1: "is_valid_local_file ex_env ex_world ''valid.png''"
    by (simp add: is_valid_local_file_def isfile_def ex_defs str_defs)
  have 2: "is_url ''http://bad-host/x.png''"
    by (simp add: is_url_def str_defs)
  have 3: "http_get ex_env ''http://bad-host/x.png'' = NetworkFailure"
    by (simp add: ex_defs)
  have 4: "update_source ex_env ex_world ''valid.png, http://bad-host/x.png'' [] = Inl ConnectionError"
  proof -
    have "process_paths ex_env ex_world [''valid.png'', ''http://bad-host/x.png''] =
            Inl ConnectionError"
      by (simp add: src_defs tmp_defs ex_defs str_defs splitext_loop.simps Let_def)
    then show ?thesis
      by (simp add: update_source_def ex_raw_bad)
  qed
  from ex_textbox_bad 1 2 3 4 show ?thesis by blast
qed

text \<open>The loop over a concatenation runs the first part, then the second from the state reached.\<close>

lemma process_paths_append:
  "process_paths e w (qs @ rs) =
     (case process_paths e w qs of
        Inl err \<Rightarrow> Inl err
      | Inr (out, w1) \<Rightarrow>
          (case process_paths e w1 rs of
             Inl err \<Rightarrow> Inl err
           | Inr (out2, w2) \<Rightarrow> Inr (out @ out2, w2)))"
proof (induction qs arbitrary: w)
  case Nil
  show ?case by (simp split: sum.splits)
next
  case (Cons q qs)
  show ?case
    by (simp add: Cons split: sum.splits prod.splits)
qed

lemma process_path_missing:
  "\<not> is_url p \<Longrightarrow> \<not> isfile e w p \<Longrightarrow> process_path e w p = Inr (None, w)"
  by (simp add: process_path_def is_valid_local_file_def)

lemma process_path_fetch_failure:
  assumes "is_url p"
    and "http_get e p = NetworkFailure \<or>
         (\<exists>r. http_get e p = Response r \<and> 400 \<le> status_code r \<and> status_code r < 600)"
  shows "\<exists>err. process_path e w p = Inl err"
  using assms
  by (auto simp: process_path_def download_file_def raise_for_status_def Let_def
        split: sum.splits)

text \<open>
  Claim C2, amended. A reference that is neither a URL nor an existing file when its turn
  comes is dropped silently: the batch behaves as if the reference were not in the list. A
  URL whose request fails, by a network failure or by a status from 400 to 599, is not
  dropped: the batch ends with an error, wherever the URL stands in the list.
\<close>

theorem batch_drops_missing_and_raises_on_failed_fetch:
  "(process_paths e w qs = Inr (out, w1) \<and> \<not> is_url p \<and> \<not> is_valid_local_file e w1 p \<longrightarrow>
      process_paths e w (qs @ p # ps) = process_paths e w (qs @ ps)) \<and>
   (is_url p \<and>
    (http_get e p = NetworkFailure \<or>
     (\<exists>r. http_get e p = Response r \<and> 400 \<le> status_code r \<and> status_code r < 600)) \<longrightarrow>
      (\<exists>err. process_paths e w (qs @ p # ps) = Inl err))"
proof (intro conjI impI)
  assume a: "process_paths e w qs = Inr (out, w1) \<and> \<not> is_url p \<and> \<not> is_valid_local_file e w1 p"
  then have "process_path e w1 p = Inr (None, w1)"
    by (simp add: process_path_missing is_valid_local_file_def)
  then have "process_paths e w1 (p # ps) = process_paths e w1 ps"
    by simp
  with a show "process_paths e w (qs @ p # ps) = process_paths e w (qs @ ps)"
    by (simp add: process_paths_append)
next
  assume a: "is_url p \<and>
    (http_get e p = NetworkFailure \<or>
     (\<exists>r. http_get e p = Response r \<and> 400 \<le> status_code r \<and> status_code r < 600))"
  have step: "\<exists>err. process_paths e w' (p # ps) = Inl err" for w'
  proof -
    from a obtain err where "process_path e w' p = Inl err"
      using process_path_fetch_failure[of p e w'] by blast
    then show ?thesis by simp
  qed
  show "\<exists>err. process_paths e w (qs @ p # ps) = Inl err"
  proof (cases "process_paths e w qs")
    case (Inl err)
    then show ?thesis by (simp add: process_paths_append)
  next
    case (Inr r)
    obtain out w' where r: "r = (out, w')" by (cases r)
    from step[of w'] obtain err where "process_paths e w' (p # ps) = Inl err" ..
    with Inr r show ?thesis by (simp add: process_paths_append)
  qed
qed

theorem batch_drops_missing_and_raises_on_failed_fetch_witness:
  "process_paths ex_env ex_world [''valid.png''] = Inr ([''valid.png''], ex_world) \<and>
   \<not> is_url ''missing.jpg'' \<and> \<not> is_valid_local_file ex_env ex_world ''missing.jpg'' \<and>
   process_paths ex_env ex_world [''valid.png'', ''missing.jpg'', ''a.jpg''] =
     Inr ([''valid.png'', ''a.jpg''], ex_world) \<and>
   is_url ''http://bad-host/x.png'' \<and> http_get ex_env ''http://bad-host/x.png'' = NetworkFailure \<and>
   process_paths ex_env ex_world [''valid.png'', ''http://bad-host/x.png'', ''a.jpg''] =
     Inl ConnectionError"
proof -
  have 1: "process_paths ex_env ex_world [''valid.png''] = Inr ([''valid.png''], ex_world)"
    by (simp add: src_defs tmp_defs ex_defs str_defs splitext_loop.simps Let_def)
  have 2: "\<not> is_url ''missing.jpg''"
    by (simp add: is_url_def str_defs)
  have 3: "\<not> is_valid_local_file ex_env ex_world ''missing.jpg''"
    by (simp add: is_valid_local_file_def isfile_def ex_defs str_defs)
  have 4: "process_paths ex_env ex_world [''valid.png'', ''a.jpg''] =
     Inr ([''valid.png'', ''a.jpg''], ex_world)"
    by (simp add: src_defs tmp_defs ex_defs str_defs splitext_loop.simps Let_def)
  have 5: "process_paths ex_env ex_world [''valid.png'', ''missing.jpg'', ''a.jpg''] =
     Inr ([''valid.png'', ''a.jpg''], ex_world)"
    using batch_drops_missing_and_raises_on_failed_fetch[of ex_env ex_world "[''valid.png'']"
        "[''valid.png'']" ex_world "''missing.jpg''" "[''a.jpg'']", THEN conjunct1] 1 2 3 4
    by simp
  have 6: "is_url ''http://bad-host/x.png''"
    by (simp add: is_url_def str_defs)
  have 7: "http_get ex_env ''http://bad-host/x.png'' = NetworkFailure"
    by (simp add: ex_defs)
  have "\<exists>err. process_paths ex_env ex_world
          ([''valid.png''] @ ''http://bad-host/x.png'' # [''a.jpg'']) = Inl err"
    using batch_drops_missing_and_raises_on_failed_fetch[of ex_env ex_world "[''valid.png'']"
        "[''valid.png'']" ex_world "''http://bad-host/x.png''" "[''a.jpg'']", THEN conjunct2] 6 7
    by blast
  moreover have "process_paths ex_env ex_world [''valid.png'', ''http://bad-host/x.png'', ''a.jpg''] =
     Inl ConnectionError"
    by (simp add: src_defs tmp_defs ex_defs str_defs splitext_loop.simps Let_def)
  ultimately have 8: "process_paths ex_env ex_world
     [''valid.png'', ''http://bad-host/x.png'', ''a.jpg''] = Inl ConnectionError"
    by simp
  from 1 2 3 5 6 7 8 show ?thesis by blast
qed

subsection \<open>The containment guard\<close>

text \<open>
  Claim C8, as stated, fails for the third allowed root of the specification: a file in the
  configured download folder is contained in an allowed root, and the guard does not return
  it unchanged but copies it into the temporary directory.
\<close>

theorem guard_download_folder_counterexample:
  "custom_temp_folder ex_dl_world = Some ''/data/dl'' \<and>
   isfile ex_env ex_dl_world ''/data/dl/c.png'' \<and>
   path_under (realpath ex_env ''/data/dl'') (realpath ex_env ''/data/dl/c.png'') \<and>
   contained_spec ex_env ex_dl_world ''/data/dl/c.png'' \<and>
   ensure_in_allowed_dir ex_env ex_dl_world ''/data/dl/c.png'' =
     Inr (''/tmp/c.png'', ex_dl_world\<lparr>files := (files ex_dl_world)(''/tmp/c.png'' \<mapsto> [6])\<rparr>)"
proof -
  have 1: "custom_temp_folder ex_dl_world = Some ''/data/dl''"
    by (simp add: ex_dl_world_def)
  have 2: "isfile ex_env ex_dl_world ''/data/dl/c.png''"
    by (simp add: isfile_def ex_dl_world_def ex_defs str_defs)
  have 3: "path_under (realpath ex_env ''/data/dl'') (realpath ex_env ''/data/dl/c.png'')"
    by (simp add: path_under_def ex_defs str_defs)
  have 4: "contained_spec ex_env ex_dl_world ''/data/dl/c.png''"
    by (simp add: contained_spec_def allowed_roots_spec_def path_under_def ex_dl_world_def
          ex_defs str_defs)
  have 5: "ensure_in_allowed_dir ex_env ex_dl_world ''/data/dl/c.png'' =
     Inr (''/tmp/c.png'', ex_dl_world\<lparr>files := (files ex_dl_world)(''/tmp/c.png'' \<mapsto> [6])\<rparr>)"
    by (simp add: ensure_in_allowed_dir_def is_in_allowed_dir_def isfile_def copy2_def Let_def
          ex_dl_world_def ex_defs str_defs)
  from 1 2 3 4 5 show ?thesis by blast
qed

lemma startswith_append: "startswith p (a @ b) \<Longrightarrow> startswith p a"
proof -
  assume "startswith p (a @ b)"
  then have "take (length a + length b) p = a @ b"
    by (simp add: startswith_def)
  then have "take (length a) (take (length a + length b) p) = a"
    by simp
  then show "startswith p a"
    by (simp add: startswith_def min_def)
qed

lemma path_under_startswith: "path_under root p \<Longrightarrow> startswith p root"
  by (auto simp: path_under_def startswith_def[of root root] dest: startswith_append
        split: if_splits)

lemma guard_accepts_descendant:
  assumes "path_under (realpath e (getcwd e)) (realpath e p) \<or>
           path_under (realpath e (gettempdir e)) (realpath e p)"
  shows "is_in_allowed_dir e p" and "is_in_allowed_dirs e p"
  using assms path_under_startswith
  by (auto simp: is_in_allowed_dir_def is_in_allowed_dirs_def Let_def)

text \<open>
  Claim C8, amended. The roots of the guard are the resolved working directory and the
  resolved temporary directory only. For an existing file: when its resolved path is a
  path-prefix descendant of one of the two, both guards return the path unchanged and change
  nothing; when its resolved path does not even begin with either root, and the destination
  is not the file itself, the file is copied to the temporary directory under its base name
  and the new path is returned; and whenever a guard returns, the original file is still at
  its path with its content, and the returned path holds that content.
\<close>

theorem guard_copies_never_moves:
  assumes "isfile e w p"
  shows "(path_under (realpath e (getcwd e)) (realpath e p) \<or>
          path_under (realpath e (gettempdir e)) (realpath e p) \<longrightarrow>
            ensure_in_allowed_dir e w p = Inr (p, w) \<and> ensure_in_temp e w p = Inr (p, w)) \<and>
         (\<not> startswith (realpath e p) (realpath e (getcwd e)) \<and>
          \<not> startswith (realpath e p) (realpath e (gettempdir e)) \<and>
          realpath e p \<noteq> realpath e (join (gettempdir e) (basename p)) \<longrightarrow>
            ensure_in_allowed_dir e w p =
              Inr (join (gettempdir e) (basename p),
                   w\<lparr>files := (files w)(realpath e (join (gettempdir e) (basename p)) :=
                                  files w (realpath e p))\<rparr>) \<and>
            ensure_in_temp e w p = ensure_in_allowed_dir e w p) \<and>
         (ensure_in_allowed_dir e w p = Inr (q, w') \<or> ensure_in_temp e w p = Inr (q, w') \<longrightarrow>
            files w' (realpath e p) = files w (realpath e p) \<and>
            files w' (realpath e q) = files w (realpath e p) \<and>
            isfile e w' p \<and> isfile e w' q)"
proof (intro conjI impI)
  assume a: "path_under (realpath e (getcwd e)) (realpath e p) \<or>
             path_under (realpath e (gettempdir e)) (realpath e p)"
  from guard_accepts_descendant(1)[OF a] assms
  show "ensure_in_allowed_dir e w p = Inr (p, w)"
    by (simp add: ensure_in_allowed_dir_def)
  from guard_accepts_descendant(2)[OF a]
  show "ensure_in_temp e w p = Inr (p, w)"
    by (simp add: ensure_in_temp_def)
next
  assume a: "\<not> startswith (realpath e p) (realpath e (getcwd e)) \<and>
          \<not> startswith (realpath e p) (realpath e (gettempdir e)) \<and>
          realpath e p \<noteq> realpath e (join (gettempdir e) (basename p))"
  then show d: "ensure_in_allowed_dir e w p =
              Inr (join (gettempdir e) (basename p),
                   w\<lparr>files := (files w)(realpath e (join (gettempdir e) (basename p)) :=
                                  files w (realpath e p))\<rparr>)"
    using assms
    by (simp add: ensure_in_allowed_dir_def is_in_allowed_dir_def copy2_def Let_def)
  from a show "ensure_in_temp e w p = ensure_in_allowed_dir e w p"
    unfolding d
    by (simp add: ensure_in_temp_def is_in_allowed_dirs_def copy2_def Let_def)
next
  assume a: "ensure_in_allowed_dir e w p = Inr (q, w') \<or> ensure_in_temp e w p = Inr (q, w')"
  then have "(q = p \<and> w' = w) \<or>
             (realpath e q \<noteq> realpath e p \<and>
              w' = w\<lparr>files := (files w)(realpath e q := files w (realpath e p))\<rparr>)"
    using assms
    by (auto simp: ensure_in_allowed_dir_def ensure_in_temp_def copy2_def Let_def
          split: if_splits)
  then have f: "files w' (realpath e p) = files w (realpath e p) \<and>
         files w' (realpath e q) = files w (realpath e p)"
    by auto
  then show "files w' (realpath e p) = files w (realpath e p)"
    and "files w' (realpath e q) = files w (realpath e p)"
    by simp_all
  from f assms show "isfile e w' p" and "isfile e w' q"
    by (simp_all add: isfile_def)
qed


theorem guard_copies_never_moves_witness:
  "isfile ex_env ex_world ''/app/valid.png'' \<and>
   path_under (realpath ex_env (getcwd ex_env)) (realpath ex_env ''/app/valid.png'') \<and>
   ensure_in_allowed_dir ex_env ex_world ''/app/valid.png'' = Inr (''/app/valid.png'', ex_world) \<and>
   ensure_in_temp ex_env ex_world ''/app/valid.png'' = Inr (''/app/valid.png'', ex_world) \<and>
   isfile ex_env ex_world ''/home/u/b.png'' \<and>
   \<not> startswith (realpath ex_env ''/home/u/b.png'') (realpath ex_env (getcwd ex_env)) \<and>
   \<not> startswith (realpath ex_env ''/home/u/b.png'') (realpath ex_env (gettempdir ex_env)) \<and>
   ensure_in_allowed_dir ex_env ex_world ''/home/u/b.png'' =
     Inr (''/tmp/b.png'', ex_world\<lparr>files := (files ex_world)(''/tmp/b.png'' \<mapsto> [4, 5])\<rparr>) \<and>
   files (ex_world\<lparr>files := (files ex_world)(''/tmp/b.png'' \<mapsto> [4, 5])\<rparr>) ''/home/u/b.png'' =
     Some [4, 5]"
proof -
  have f1: "isfile ex_env ex_world ''/app/valid.png''"
    by (simp add: isfile_def ex_defs str_defs)
  have u1: "path_under (realpath ex_env (getcwd ex_env)) (realpath ex_env ''/app/valid.png'')"
    by (simp add: path_under_def ex_defs str_defs)
  from guard_copies_never_moves[OF f1, THEN conjunct1] u1
  have r1: "ensure_in_allowed_dir ex_env ex_world ''/app/valid.png'' = Inr (''/app/valid.png'', ex_world)"
    and r2: "ensure_in_temp ex_env ex_world ''/app/valid.png'' = Inr (''/app/valid.png'', ex_world)"
    by blast+
  have f2: "isfile ex_env ex_world ''/home/u/b.png''"
    by (simp add: isfile_def ex_defs str_defs)
  have n1: "\<not> startswith (realpath ex_env ''/home/u/b.png'') (realpath ex_env (getcwd ex_env))"
    by (simp add: ex_defs str_defs)
  have n2: "\<not> startswith (realpath ex_env ''/home/u/b.png'') (realpath ex_env (gettempdir ex_env))"
    by (simp add: ex_defs str_defs)
  have dst: "join (gettempdir ex_env) (basename ''/home/u/b.png'') = ''/tmp/b.png''"
    by (simp add: ex_defs str_defs)
  have n3: "realpath ex_env ''/home/u/b.png'' \<noteq>
            realpath ex_env (join (gettempdir ex_env) (basename ''/home/u/b.png''))"
    unfolding dst by (simp add: ex_defs str_defs)
  have src: "files ex_world (realpath ex_env ''/home/u/b.png'') = Some [4, 5]"
    by (simp add: ex_defs str_defs)
  have rd: "realpath ex_env ''/tmp/b.png'' = ''/tmp/b.png''"
    by (simp add: ex_defs str_defs)
  from guard_copies_never_moves[OF f2, THEN conjunct2, THEN conjunct1] n1 n2 n3
  have r3: "ensure_in_allowed_dir ex_env ex_world ''/home/u/b.png'' =
     Inr (''/tmp/b.png'', ex_world\<lparr>files := (files ex_world)(''/tmp/b.png'' \<mapsto> [4, 5])\<rparr>)"
    by (simp add: dst src rd)
  from guard_copies_never_moves[OF f2, THEN conjunct2, THEN conjunct2, rule_format,
      OF disjI1, OF r3]
  have r4: "files (ex_world\<lparr>files := (files ex_world)(''/tmp/b.png'' \<mapsto> [4, 5])\<rparr>)
              ''/home/u/b.png'' = Some [4, 5]"
    by (simp add: ex_defs str_defs)
  from f1 u1 r1 r2 f2 n1 n2 r3 r4 show ?thesis by blast
qed



subsection \<open>Duplicates in the batch flow\<close>

text \<open>
  Claim C3, as stated, fails: \<open>a.jpg\<close> and \<open>./a.jpg\<close> resolve to the same file, and the batch
  returns both.
\<close>
theorem batch_dedup_counterexample:
  "textbox_paths ''a.jpg, ./a.jpg'' = [''a.jpg'', ''./a.jpg''] \<and>
   realpath ex_env ''a.jpg'' = realpath ex_env ''./a.jpg'' \<and>
   update_source ex_env ex_world ''a.jpg, ./a.jpg'' [] =
     Inr (\<lparr>audio_value = None, image_value = Some ''a.jpg''\<rparr>,
          ex_world\<lparr>source_paths := Some [''a.jpg'', ''./a.jpg'']\<rparr>)"
proof -
  have 1: "realpath ex_env ''a.jpg'' = realpath ex_env ''./a.jpg''"
    by (simp add: ex_defs str_defs)
  have 2: "update_source ex_env ex_world ''a.jpg, ./a.jpg'' [] =
     Inr (\<lparr>audio_value = None, image_value = Some ''a.jpg''\<rparr>,
          ex_world\<lparr>source_paths := Some [''a.jpg'', ''./a.jpg'']\<rparr>)"
    by (simp only: update_source_def ex_raw_a ex_process_a)
       (simp add: get_first_def ex_env_def endswith_def)
  from ex_textbox_a 1 2 show ?thesis by blast
qed

lemma distinct_list_of_set: "distinct (list_of_set e xs)"
  by (simp add: list_of_set_def)

lemma set_list_of_set: "set (list_of_set e xs) = set xs"
  by (simp add: list_of_set_def)

lemma sorted_list_of_set_rank: "sorted (map (set_rank e (remdups xs)) (list_of_set e xs))"
  by (simp add: list_of_set_def)

lemma textbox_paths_nonempty: "p \<in> set (textbox_paths t) \<Longrightarrow> p \<noteq> []"
  by (auto simp: textbox_paths_def)

lemma file_paths_nonempty: "p \<in> set (file_paths fs) \<Longrightarrow> p \<noteq> []"
  by (auto simp: file_paths_def)

lemma process_paths_local_allowed:
  assumes "\<forall>p \<in> set ps. p \<noteq> [] \<and> \<not> is_url p \<and> is_valid_local_file e w p \<and> is_in_allowed_dirs e p"
  shows "process_paths e w ps = Inr (ps, w)"
  using assms
  by (induction ps) (auto simp: process_path_def ensure_in_temp_def)

text \<open>
  Claim C3, amended. Duplicates are removed among the raw reference strings only, by
  \<^verbatim>\<open>list(set(...))\<close> before any reference is processed: the list that is processed holds
  every different string once, and no string that was not given. Its order is the order of
  the set's ranks, not the order of first appearance. For references to existing local files
  that the guard accepts, the result is exactly that list: one entry for each different
  spelling, whatever files the spellings resolve to.
\<close>
theorem batch_dedup_is_textual:
  "distinct (all_raw_paths e t fs) \<and>
   set (all_raw_paths e t fs) = set (textbox_paths t @ file_paths fs) \<and>
   sorted (map (set_rank e (remdups (textbox_paths t @ file_paths fs))) (all_raw_paths e t fs)) \<and>
   ((\<forall>p \<in> set (textbox_paths t @ file_paths fs).
       \<not> is_url p \<and> is_valid_local_file e w p \<and> is_in_allowed_dirs e p) \<longrightarrow>
    process_paths e w (all_raw_paths e t fs) = Inr (all_raw_paths e t fs, w))"
proof (intro conjI impI)
  show "distinct (all_raw_paths e t fs)"
    by (simp add: all_raw_paths_def distinct_list_of_set)
  show eq: "set (all_raw_paths e t fs) = set (textbox_paths t @ file_paths fs)"
    by (simp only: all_raw_paths_def set_list_of_set)
  show "sorted (map (set_rank e (remdups (textbox_paths t @ file_paths fs))) (all_raw_paths e t fs))"
    unfolding all_raw_paths_def by (rule sorted_list_of_set_rank)
  assume a: "\<forall>p \<in> set (textbox_paths t @ file_paths fs).
       \<not> is_url p \<and> is_valid_local_file e w p \<and> is_in_allowed_dirs e p"
  have ne: "p \<noteq> []" if "p \<in> set (textbox_paths t @ file_paths fs)" for p
  proof -
    from that have "p \<in> set (textbox_paths t) \<or> p \<in> set (file_paths fs)" by simp
    then show ?thesis
      using textbox_paths_nonempty[of p t] file_paths_nonempty[of p fs] by blast
  qed
  have "\<forall>p \<in> set (all_raw_paths e t fs).
          p \<noteq> [] \<and> \<not> is_url p \<and> is_valid_local_file e w p \<and> is_in_allowed_dirs e p"
    unfolding eq using a ne by blast
  then show "process_paths e w (all_raw_paths e t fs) = Inr (all_raw_paths e t fs, w)"
    by (rule process_paths_local_allowed)
qed

theorem batch_dedup_is_textual_witness:
  "textbox_paths ''./a.jpg, a.jpg, ./a.jpg'' = [''./a.jpg'', ''a.jpg'', ''./a.jpg''] \<and>
   all_raw_paths ex_env ''./a.jpg, a.jpg, ./a.jpg'' [] = [''a.jpg'', ''./a.jpg''] \<and>
   process_paths ex_env ex_world [''a.jpg'', ''./a.jpg''] = Inr ([''a.jpg'', ''./a.jpg''], ex_world)"
proof -
  have tp: "textbox_paths ''./a.jpg, a.jpg, ./a.jpg'' = [''./a.jpg'', ''a.jpg'', ''./a.jpg'']"
    by (simp add: textbox_paths_def str_defs)
  have fp: "file_paths [] = []"
    by (simp add: file_paths_def)
  have raw: "all_raw_paths ex_env ''./a.jpg, a.jpg, ./a.jpg'' [] = [''a.jpg'', ''./a.jpg'']"
    by (simp add: all_raw_paths_def list_of_set_def tp fp ex_env_def)
  have h: "\<forall>p \<in> set (textbox_paths ''./a.jpg, a.jpg, ./a.jpg'' @ file_paths []).
           \<not> is_url p \<and> is_valid_local_file ex_env ex_world p \<and> is_in_allowed_dirs ex_env p"
    by (simp add: tp fp is_url_def is_valid_local_file_def isfile_def is_in_allowed_dirs_def
          ex_defs str_defs)
  from batch_dedup_is_textual[of ex_env "''./a.jpg, a.jpg, ./a.jpg''" "[]" ex_world,
      THEN conjunct2, THEN conjunct2, THEN conjunct2, THEN mp, OF h]
  have "process_paths ex_env ex_world [''a.jpg'', ''./a.jpg''] = Inr ([''a.jpg'', ''./a.jpg''], ex_world)"
    by (simp add: raw)
  with tp raw show ?thesis by blast
qed

end
